theory Spec2Isabelle
  imports Complex_Main
begin

section \<open>JavaScript values\<close>

text \<open>
  A JavaScript \<open>number\<close>: a finite double, the two infinities, or NaN. A finite double
  is given by its exact rational value. The sign of zero is not represented.
\<close>

datatype jsnum = Fin rat | PosInf | NegInf | NaN

text \<open>The relational operators \<open><\<close>, \<open><=\<close> and \<open>>\<close>: false whenever an operand is NaN.\<close>

fun js_lt :: "jsnum \<Rightarrow> jsnum \<Rightarrow> bool" where
  "js_lt NaN y = False"
| "js_lt x NaN = False"
| "js_lt (Fin a) (Fin b) = (a < b)"
| "js_lt (Fin a) PosInf = True"
| "js_lt NegInf (Fin b) = True"
| "js_lt NegInf PosInf = True"
| "js_lt x y = False"

fun js_le :: "jsnum \<Rightarrow> jsnum \<Rightarrow> bool" where
  "js_le NaN y = False"
| "js_le x NaN = False"
| "js_le x y = (\<not> js_lt y x)"

definition js_gt :: "jsnum \<Rightarrow> jsnum \<Rightarrow> bool" where
  "js_gt x y = js_lt y x"

text \<open>\<open>ToBoolean\<close> of a number: zero and NaN are falsy.\<close>

fun js_truthy :: "jsnum \<Rightarrow> bool" where
  "js_truthy (Fin a) = (a \<noteq> 0)"
| "js_truthy NaN = False"
| "js_truthy x = True"

text \<open>
  The result of an arithmetic operation is the exact result rounded to the nearest double,
  a tie going to the even mantissa: 53 significant bits, the fixed spacing \<open>2^-1074\<close> of
  the subnormal numbers below \<open>2^-1022\<close>, and infinity when the rounded magnitude reaches
  \<open>2^1024\<close>. \<open>binaryExponent x\<close> is the integer \<open>e\<close> with \<open>2^e <= |x| < 2^(e+1)\<close>.
\<close>

function bitLength :: "int \<Rightarrow> int" where
  "bitLength n = (if n \<le> 0 then 0 else 1 + bitLength (n div 2))"
  by pat_completeness auto
termination
  by (relation "measure nat") auto

declare bitLength.simps [simp del]

definition pow2 :: "int \<Rightarrow> rat" where
  "pow2 k = (if 0 \<le> k then of_int (2 ^ nat k) else 1 / of_int (2 ^ nat (- k)))"

definition binaryExponent :: "rat \<Rightarrow> int" where
  "binaryExponent x =
     (let a = \<bar>x\<bar>
      in if 1 \<le> a then bitLength \<lfloor>a\<rfloor> - 1
         else
           let m = bitLength \<lfloor>1 / a\<rfloor>
           in if pow2 (1 - m) \<le> a then 1 - m else - m)"

definition roundHalfEven :: "rat \<Rightarrow> int" where
  "roundHalfEven y =
     (let q = \<lfloor>y\<rfloor>;
          r = y - of_int q
      in if r < 1 / 2 then q
         else if 1 / 2 < r then q + 1
         else if even q then q else q + 1)"

definition toDouble :: "rat \<Rightarrow> jsnum" where
  "toDouble x =
     (if x = 0 then Fin 0
      else
        let e = max (binaryExponent x) (- 1022);
            ulp = pow2 (e - 52);
            m = roundHalfEven (x / ulp)
        in if 1024 \<le> e \<or> (e = 1023 \<and> \<bar>m\<bar> = 2 ^ 53)
           then (if 0 < x then PosInf else NegInf)
           else Fin (of_int m * ulp))"

text \<open>Subtraction and division of numbers, with the non-finite cases of IEEE arithmetic.\<close>

fun js_sub :: "jsnum \<Rightarrow> jsnum \<Rightarrow> jsnum" where
  "js_sub NaN y = NaN"
| "js_sub x NaN = NaN"
| "js_sub (Fin a) (Fin b) = toDouble (a - b)"
| "js_sub (Fin a) PosInf = NegInf"
| "js_sub (Fin a) NegInf = PosInf"
| "js_sub PosInf PosInf = NaN"
| "js_sub PosInf y = PosInf"
| "js_sub NegInf NegInf = NaN"
| "js_sub NegInf y = NegInf"

fun js_div :: "jsnum \<Rightarrow> jsnum \<Rightarrow> jsnum" where
  "js_div NaN y = NaN"
| "js_div x NaN = NaN"
| "js_div (Fin a) (Fin b) =
     (if b \<noteq> 0 then toDouble (a / b)
      else if 0 < a then PosInf else if a < 0 then NegInf else NaN)"
| "js_div (Fin a) y = Fin 0"
| "js_div PosInf (Fin b) = (if b < 0 then NegInf else PosInf)"
| "js_div NegInf (Fin b) = (if b < 0 then PosInf else NegInf)"
| "js_div x y = NaN"

fun isFinite :: "jsnum \<Rightarrow> bool" where
  "isFinite (Fin a) = True"
| "isFinite x = False"

text \<open>
  \<open>Number.prototype.toFixed(2)\<close>. A finite value of magnitude below \<open>10^21\<close> is
  rounded to the nearest multiple of \<open>1/100\<close>, a tie going away from zero, and the result
  is the number that the printed decimal denotes. For a non-finite value and for a value of
  magnitude at least \<open>10^21\<close> the method prints \<open>String(x)\<close>, and the result is the
  number \<open>x\<close> itself.
\<close>

fun toFixed2 :: "jsnum \<Rightarrow> jsnum" where
  "toFixed2 (Fin x) =
     (if 10 ^ 21 \<le> \<bar>x\<bar> then Fin x
      else Fin (sgn x * of_int \<lfloor>\<bar>x\<bar> * 100 + 1 / 2\<rfloor> / 100))"
| "toFixed2 x = x"

text \<open>The values that occur as fields of the objects sent to the API.\<close>

datatype jsval = JUndefined | JNull | JBool bool | JNum jsnum | JStr string

text \<open>
  An object, as \<open>Object.entries\<close> sees it: its own keys with their values, in insertion
  order.
\<close>

type_synonym jsobject = "(string \<times> jsval) list"

text \<open>
  \<open>String(value)\<close>. The conversion of a number to its decimal text is the language's
  builtin \<open>Number::toString\<close>; it is the parameter \<open>numToString\<close>.
\<close>

fun js_String :: "(jsnum \<Rightarrow> string) \<Rightarrow> jsval \<Rightarrow> string" where
  "js_String numToString JUndefined = ''undefined''"
| "js_String numToString JNull = ''null''"
| "js_String numToString (JBool b) = (if b then ''true'' else ''false'')"
| "js_String numToString (JNum n) = numToString n"
| "js_String numToString (JStr s) = s"

text \<open>The test \<open>value !== undefined && value !== null && value !== ''\<close>.\<close>

definition isPresent :: "jsval \<Rightarrow> bool" where
  "isPresent v = (v \<noteq> JUndefined \<and> v \<noteq> JNull \<and> v \<noteq> JStr '''')"

text \<open>
  \<open>String.prototype.trim\<close> on strings of 8-bit characters: tab, line feed, vertical tab,
  form feed, carriage return, space and no-break space are white space.
\<close>

definition isWhiteSpace :: "char \<Rightarrow> bool" where
  "isWhiteSpace c = (c \<in> set [CHR 0x09, CHR 0x0A, CHR 0x0B, CHR 0x0C, CHR 0x0D, CHR 0x20, CHR 0xA0])"

definition trim :: "string \<Rightarrow> string" where
  "trim s = rev (dropWhile isWhiteSpace (rev (dropWhile isWhiteSpace s)))"

section \<open>Types of the client (types/product.ts)\<close>

text \<open>
  The interface \<open>Product\<close>. Its field \<open>id\<close> is written \<open>product_id\<close>. The form
  record below has fields of the same names, so the fields of a product are written with
  the prefix \<open>Product.\<close> from there on.
\<close>

record Product =
  product_id :: int
  title :: string
  description :: string
  price :: jsnum
  discount_percentage :: jsnum
  discounted_price :: jsnum
  category :: string
  brand :: string
  rating :: jsnum
  stock :: jsnum
  thumbnail :: string
  images :: "string list"
  external_id :: "int option"
  external_source :: "string option"
  is_active :: bool
  created_at :: string
  updated_at :: string

record ProductSort =
  sort_by :: string
  sort_order :: string

text \<open>The interface \<open>ProductPagination\<close>; its field \<open>size\<close> is written \<open>page_size\<close>.\<close>

record ProductPagination =
  page :: int
  page_size :: int

text \<open>
  The interface \<open>ProductCreate\<close>, which is the type of the form state \<open>formData\<close>: an
  optional field that is \<open>undefined\<close> is \<open>None\<close>. The form keeps \<open>images\<close> as one
  comma-separated string.
\<close>

record ProductCreate =
  title :: string
  description :: string
  price :: jsnum
  discount_percentage :: "jsnum option"
  category :: string
  brand :: "string option"
  rating :: "jsnum option"
  stock :: jsnum
  thumbnail :: "string option"
  images :: "string option"

section \<open>The API client (services/api.ts)\<close>

text \<open>A thrown value: the generic \<open>Error\<close> of \<open>request\<close>, or what \<open>fetch\<close> and
  \<open>response.json()\<close> reject with.\<close>

datatype js_error = Error string | TypeError string | SyntaxError string

record 'a Response =
  ok :: bool
  status :: jsnum
  statusText :: string
  json :: "js_error + 'a"

datatype 'a fetch_result = FetchRejected js_error | FetchResolved "'a Response"

text \<open>The options of a request that the client sets; \<open>method\<close> is written \<open>http_method\<close>.\<close>

record RequestInit =
  http_method :: "string option"
  body :: "string option"

text \<open>
  What the client takes from its runtime: the decimal text of a number, the text of a
  \<open>URLSearchParams\<close>, and \<open>fetch\<close>, which answers a URL and its options.
\<close>

record 'a runtime =
  numToString :: "jsnum \<Rightarrow> string"
  searchParamsToString :: "(string \<times> string) list \<Rightarrow> string"
  fetch :: "string \<Rightarrow> RequestInit \<Rightarrow> 'a fetch_result"

definition API_BASE_URL :: string where
  "API_BASE_URL = ''http://localhost:8000/api/v1''"

definition request :: "'a runtime \<Rightarrow> string \<Rightarrow> RequestInit \<Rightarrow> js_error + 'a" where
  "request rt endpoint options =
     (let url = API_BASE_URL @ endpoint
      in case fetch rt url options of
           FetchRejected e \<Rightarrow> Inl e
         | FetchResolved response \<Rightarrow>
             if \<not> ok response
             then Inl (Error (''API request failed: '' @ numToString rt (status response)
                               @ '' '' @ statusText response))
             else json response)"

text \<open>
  \<open>Object.entries(filters).forEach(...)\<close> of \<open>getProducts\<close>: one \<open>params.append\<close> for
  each entry that passes the test.
\<close>

fun appendFilters ::
  "(jsnum \<Rightarrow> string) \<Rightarrow> jsobject \<Rightarrow> (string \<times> string) list \<Rightarrow> (string \<times> string) list" where
  "appendFilters toStr [] params = params"
| "appendFilters toStr ((key, value) # entries) params =
     appendFilters toStr entries
       (if value \<noteq> JUndefined \<and> value \<noteq> JNull \<and> value \<noteq> JStr ''''
        then params @ [(key, js_String toStr value)] else params)"

text \<open>
  The \<open>URLSearchParams\<close> that \<open>getProducts\<close> builds, as the list of its pairs. A string is
  truthy when it is not empty.
\<close>

definition getProducts_params ::
  "(jsnum \<Rightarrow> string) \<Rightarrow> jsobject option \<Rightarrow> ProductSort option \<Rightarrow> ProductPagination option
     \<Rightarrow> (string \<times> string) list" where
  "getProducts_params toStr filters sort' pagination =
     (let params = [];
          params = (case filters of None \<Rightarrow> params
                    | Some fs \<Rightarrow> appendFilters toStr fs params);
          params = (case sort' of None \<Rightarrow> params
                    | Some s \<Rightarrow>
                        let params = (if sort_by s \<noteq> '''' then params @ [(''sort_by'', sort_by s)]
                                      else params)
                        in if sort_order s \<noteq> '''' then params @ [(''sort_order'', sort_order s)]
                           else params);
          params = (case pagination of None \<Rightarrow> params
                    | Some p \<Rightarrow>
                        params @ [(''page'', toStr (Fin (of_int (page p))))]
                               @ [(''size'', toStr (Fin (of_int (page_size p))))])
      in params)"

definition getProducts ::
  "'a runtime \<Rightarrow> jsobject option \<Rightarrow> ProductSort option \<Rightarrow> ProductPagination option
     \<Rightarrow> js_error + 'a" where
  "getProducts rt filters sort' pagination =
     (let params = getProducts_params (numToString rt) filters sort' pagination;
          queryString = searchParamsToString rt params;
          endpoint = ''/products'' @ (if queryString \<noteq> '''' then ''?'' @ queryString else '''')
      in request rt endpoint \<lparr>http_method = None, body = None\<rparr>)"

definition getProduct :: "'a runtime \<Rightarrow> int \<Rightarrow> js_error + 'a" where
  "getProduct rt n =
     request rt (''/products/'' @ numToString rt (Fin (of_int n))) \<lparr>http_method = None, body = None\<rparr>"

text \<open>The names of the options of \<open>ProductFilter\<close>.\<close>

definition ProductFilter_keys :: "string list" where
  "ProductFilter_keys =
     [''category'', ''brand'', ''min_price'', ''max_price'', ''min_rating'', ''max_rating'',
      ''in_stock'', ''search'']"

section \<open>The product form (components/ProductForm)\<close>

datatype form_mode = CreateMode | EditMode

text \<open>\<open>validateForm\<close>: the errors by field name, and whether there is none.\<close>

definition validateForm :: "ProductCreate \<Rightarrow> (string \<times> string) list \<times> bool" where
  "validateForm formData =
     (let newErrors = [];
          newErrors = (if trim (title formData) = ''''
                       then newErrors @ [(''title'', ''Title is required'')] else newErrors);
          newErrors = (if trim (description formData) = ''''
                       then newErrors @ [(''description'', ''Description is required'')]
                       else newErrors);
          newErrors = (if js_le (price formData) (Fin 0)
                       then newErrors @ [(''price'', ''Price must be greater than 0'')]
                       else newErrors);
          newErrors = (case discount_percentage formData of
                         None \<Rightarrow> newErrors
                       | Some d \<Rightarrow>
                           if js_truthy d \<and> (js_lt d (Fin 0) \<or> js_gt d (Fin 100))
                           then newErrors @ [(''discount_percentage'',
                                              ''Discount must be between 0 and 100'')]
                           else newErrors);
          newErrors = (if category formData = ''''
                       then newErrors @ [(''category'', ''Category is required'')]
                       else newErrors);
          newErrors = (if js_lt (stock formData) (Fin 0)
                       then newErrors @ [(''stock'', ''Stock cannot be negative'')]
                       else newErrors);
          newErrors = (case rating formData of
                         None \<Rightarrow> newErrors
                       | Some r \<Rightarrow>
                           if js_truthy r \<and> (js_lt r (Fin 0) \<or> js_gt r (Fin 5))
                           then newErrors @ [(''rating'', ''Rating must be between 0 and 5'')]
                           else newErrors)
      in (newErrors, length (map fst newErrors) = 0))"

text \<open>\<open>Object.entries(formData)\<close>: the keys in the order in which the form state is built.\<close>

definition optStr :: "string option \<Rightarrow> jsval" where
  "optStr s = (case s of None \<Rightarrow> JUndefined | Some t \<Rightarrow> JStr t)"

definition optNum :: "jsnum option \<Rightarrow> jsval" where
  "optNum n = (case n of None \<Rightarrow> JUndefined | Some m \<Rightarrow> JNum m)"

definition formEntries :: "ProductCreate \<Rightarrow> jsobject" where
  "formEntries formData =
     [(''title'', JStr (title formData)),
      (''description'', JStr (description formData)),
      (''price'', JNum (price formData)),
      (''discount_percentage'', optNum (discount_percentage formData)),
      (''category'', JStr (category formData)),
      (''brand'', optStr (brand formData)),
      (''rating'', optNum (rating formData)),
      (''stock'', JNum (stock formData)),
      (''thumbnail'', optStr (thumbnail formData)),
      (''images'', optStr (images formData))]"

text \<open>The loop that fills \<open>cleanData\<close> in the edit branch of \<open>handleSubmit\<close>.\<close>

fun cleanEntries :: "jsobject \<Rightarrow> jsobject \<Rightarrow> jsobject" where
  "cleanEntries [] cleanData = cleanData"
| "cleanEntries ((key, value) # entries) cleanData =
     cleanEntries entries
       (if value \<noteq> JUndefined \<and> value \<noteq> JNull \<and> value \<noteq> JStr ''''
        then cleanData @ [(key, value)] else cleanData)"

definition cleanData :: "ProductCreate \<Rightarrow> jsobject" where
  "cleanData formData = cleanEntries (formEntries formData) []"

text \<open>The call that \<open>handleSubmit\<close> makes on \<open>productApi\<close>, if any.\<close>

datatype api_call = CreateProduct ProductCreate | UpdateProduct int jsobject

definition handleSubmit :: "form_mode \<Rightarrow> Product option \<Rightarrow> ProductCreate \<Rightarrow> api_call option" where
  "handleSubmit mode product formData =
     (if \<not> snd (validateForm formData) then None
      else case mode of
             CreateMode \<Rightarrow> Some (CreateProduct formData)
           | EditMode \<Rightarrow>
               (case product of
                  Some p \<Rightarrow> Some (UpdateProduct (product_id p) (cleanData formData))
                | None \<Rightarrow> None))"

text \<open>The words of the specification: the fields whose invariant of the data model
  (\<open>price > 0\<close>, \<open>0 <= discountPercentage <= 100\<close>, \<open>0 <= rating <= 5\<close>, \<open>stock >= 0\<close>) a
  form input violates. An optional field that is left undefined violates nothing.\<close>

definition spec_violatedFields :: "ProductCreate \<Rightarrow> string list" where
  "spec_violatedFields formData =
     (if js_gt (price formData) (Fin 0) then [] else [''price''])
     @ (case discount_percentage formData of
          None \<Rightarrow> []
        | Some d \<Rightarrow> if js_le (Fin 0) d \<and> js_le d (Fin 100) then [] else [''discount_percentage''])
     @ (case rating formData of
          None \<Rightarrow> []
        | Some r \<Rightarrow> if js_le (Fin 0) r \<and> js_le r (Fin 5) then [] else [''rating''])
     @ (if js_le (Fin 0) (stock formData) then [] else [''stock''])"

section \<open>The listing page (pages/ProductList)\<close>

text \<open>
  The state variables of the component. A handler's calls of the setters take effect
  together, at the next rendering, so a handler is a function from state to state.
\<close>

record ProductList_state =
  viewMode :: string
  filters :: jsobject
  sortBy :: string
  sortOrder :: string
  currentPage :: int
  pageSize :: int

definition handleFiltersChange :: "jsobject \<Rightarrow> ProductList_state \<Rightarrow> ProductList_state" where
  "handleFiltersChange newFilters s = (s\<lparr>filters := newFilters\<rparr>)\<lparr>currentPage := 1\<rparr>"

definition handleSortChange :: "string \<Rightarrow> ProductList_state \<Rightarrow> ProductList_state" where
  "handleSortChange field s =
     (let s = (if sortBy s = field
               then s\<lparr>sortOrder := (if sortOrder s = ''asc'' then ''desc'' else ''asc'')\<rparr>
               else (s\<lparr>sortBy := field\<rparr>)\<lparr>sortOrder := ''asc''\<rparr>)
      in s\<lparr>currentPage := 1\<rparr>)"

definition handlePageChange :: "int \<Rightarrow> ProductList_state \<Rightarrow> ProductList_state" where
  "handlePageChange n s = s\<lparr>currentPage := n\<rparr>"

definition sortParams :: "ProductList_state \<Rightarrow> ProductSort" where
  "sortParams s = \<lparr>sort_by = sortBy s, sort_order = sortOrder s\<rparr>"

definition paginationParams :: "ProductList_state \<Rightarrow> ProductPagination" where
  "paginationParams s = \<lparr>page = currentPage s, page_size = pageSize s\<rparr>"

section \<open>The partial update of the store\<close>


section \<open>The product page (components/ProductDetail)\<close>

text \<open>What \<open>useQuery\<close> hands to the component once the request has settled.\<close>

record 'a query_result =
  data :: "'a option"
  isLoading :: bool
  error :: "js_error option"

definition useQuery_settled :: "js_error + 'a \<Rightarrow> 'a query_result" where
  "useQuery_settled r =
     (case r of Inl e \<Rightarrow> \<lparr>data = None, isLoading = False, error = Some e\<rparr>
              | Inr v \<Rightarrow> \<lparr>data = Some v, isLoading = False, error = None\<rparr>)"

text \<open>
  The price box: the price printed in large type and, under the guard
  \<open>product.discount_percentage > 0\<close>, the struck-through amount
  \<open>(product.price / (1 - product.discount_percentage / 100)).toFixed(2)\<close> with the
  percentage of the badge.
\<close>

record PriceBox =
  priceText :: jsnum
  discountRow :: "(jsnum \<times> jsnum) option"

definition discountDivisor :: "Product \<Rightarrow> jsnum" where
  "discountDivisor product =
     js_sub (Fin 1) (js_div (Product.discount_percentage product) (Fin 100))"

definition originalPrice :: "Product \<Rightarrow> jsnum" where
  "originalPrice product = js_div (Product.price product) (discountDivisor product)"

definition priceBox :: "Product \<Rightarrow> PriceBox" where
  "priceBox product =
     \<lparr>priceText = Product.price product,
      discountRow =
        (if js_gt (Product.discount_percentage product) (Fin 0)
         then Some (toFixed2 (originalPrice product), Product.discount_percentage product)
         else None)\<rparr>"

datatype detail_view = SpinnerView | ProductNotFoundView | ProductView PriceBox

definition ProductDetail_render :: "Product query_result \<Rightarrow> bool \<Rightarrow> detail_view" where
  "ProductDetail_render q isRefreshing =
     (if isLoading q \<or> isRefreshing then SpinnerView
      else case (error q, data q) of
             (None, Some product) \<Rightarrow> ProductView (priceBox product)
           | _ \<Rightarrow> ProductNotFoundView)"



section \<open>Page-number windowing (components/Pagination, \<open>getPageNumbers\<close>)\<close>

text \<open>
  The labels rendered by the pagination bar: a page number, or the string \<open>'...'\<close>
  that the component renders as the "more pages" icon.
\<close>

datatype page_label = PageNo int | Ellipsis

text \<open>
  \<open>PaginationProps\<close>. The closure \<open>getPageNumbers\<close> takes no argument and reads the
  component's props; the callback \<open>onPageChange\<close> is kept as a field of arbitrary
  result type.
\<close>

record 'e PaginationProps =
  currentPage :: int
  totalPages :: int
  onPageChange :: "int \<Rightarrow> 'e"
  hasNext :: bool
  hasPrev :: bool

text \<open>
  The page numbers are integer-valued doubles. Every integer of magnitude up to \<open>2^53\<close>
  is a double; from there on the doubles are \<open>spacing\<close> apart, and the result of \<open>+\<close> or
  \<open>-\<close> is the exact result rounded to the nearest double, a tie going to the even
  mantissa. Page arithmetic adds or subtracts 1 or 2, which never overflows.
\<close>

function spacing :: "int \<Rightarrow> int" where
  "spacing m = (if m < 2 ^ 53 then 1 else 2 * spacing (m div 2))"
  by pat_completeness auto
termination
  by (relation "measure nat") auto

declare spacing.simps [simp del]

definition nearestDouble :: "int \<Rightarrow> int" where
  "nearestDouble n =
     (let u = spacing \<bar>n\<bar>;
          q = n div u;
          r = n mod u
      in if 2 * r < u then q * u
         else if u < 2 * r then (q + 1) * u
         else if even q then q * u else (q + 1) * u)"

definition dbl_add :: "int \<Rightarrow> int \<Rightarrow> int" where
  "dbl_add a b = nearestDouble (a + b)"

definition dbl_sub :: "int \<Rightarrow> int \<Rightarrow> int" where
  "dbl_sub a b = nearestDouble (a - b)"

text \<open>
  \<open>for (let i = 1; i <= totalPages; i++) pages.push(i)\<close>, entered with \<open>i\<close>. A loop that
  does not end has the value \<open>None\<close>.
\<close>

partial_function (option) pushAllPages ::
  "int \<Rightarrow> int \<Rightarrow> page_label list \<Rightarrow> page_label list option" where
  "pushAllPages i total_pages pages =
     (if i \<le> total_pages then pushAllPages (dbl_add i 1) total_pages (pages @ [PageNo i])
      else Some pages)"

text \<open>
  \<open>for (let i = start; i <= end; i++) { if (i !== 1 && i !== totalPages) pages.push(i) }\<close>,
  entered with \<open>i\<close>.
\<close>

partial_function (option) pushWindow ::
  "int \<Rightarrow> int \<Rightarrow> int \<Rightarrow> page_label list \<Rightarrow> page_label list option" where
  "pushWindow i endPage total_pages pages =
     (if i \<le> endPage
      then pushWindow (dbl_add i 1) endPage total_pages
             (if i \<noteq> 1 \<and> i \<noteq> total_pages then pages @ [PageNo i] else pages)
      else Some pages)"

definition getPageNumbers :: "'e PaginationProps \<Rightarrow> page_label list option" where
  "getPageNumbers props =
     (let pages = [];
          maxVisible = 5
      in if totalPages props \<le> maxVisible
         then pushAllPages 1 (totalPages props) pages
         else
           let pages = pages @ [PageNo 1];
               pages = (if currentPage props > 3 then pages @ [Ellipsis] else pages);
               start = max 2 (dbl_sub (currentPage props) 1);
               endPage = min (dbl_sub (totalPages props) 1) (dbl_add (currentPage props) 1)
           in case pushWindow start endPage (totalPages props) pages of
                None \<Rightarrow> None
              | Some pages \<Rightarrow>
                  let pages = (if currentPage props < dbl_sub (totalPages props) 2
                               then pages @ [Ellipsis] else pages);
                      pages = (if totalPages props > 1
                               then pages @ [PageNo (totalPages props)] else pages)
                  in Some pages)"

text \<open>
  The words of the specification, for comparison with the code: the page numbers that a
  label sequence shows, and the sequence obtained from shown page numbers by putting an
  ellipsis exactly between neighbours that differ by more than one.
\<close>

fun shownPages :: "page_label list \<Rightarrow> int list" where
  "shownPages [] = []"
| "shownPages (PageNo n # ls) = n # shownPages ls"
| "shownPages (Ellipsis # ls) = shownPages ls"

fun spec_withEllipses :: "int list \<Rightarrow> page_label list" where
  "spec_withEllipses [] = []"
| "spec_withEllipses [a] = [PageNo a]"
| "spec_withEllipses (a # b # rest) =
     (if b - a > 1
      then PageNo a # Ellipsis # spec_withEllipses (b # rest)
      else PageNo a # spec_withEllipses (b # rest))"

section \<open>Concrete instances\<close>

text \<open>
  The decimal text of a number, as \<open>Number::toString\<close> gives it for an integer of
  magnitude below \<open>10^21\<close> and for the non-finite numbers. For any other number the text
  is left unspecified. It instantiates \<open>numToString\<close> in the concrete instances.
\<close>

function decimalDigits :: "int \<Rightarrow> string" where
  "decimalDigits n =
     (if n < 10 then [''0123456789'' ! nat n]
      else decimalDigits (n div 10) @ [''0123456789'' ! nat (n mod 10)])"
  by pat_completeness auto
termination
  by (relation "measure nat") auto

declare decimalDigits.simps [simp del]

definition integerToString :: "jsnum \<Rightarrow> string" where
  "integerToString x =
     (case x of
        Fin q \<Rightarrow>
          if q = of_int \<lfloor>q\<rfloor> \<and> \<bar>q\<bar> < 10 ^ 21
          then (if q < 0 then ''-'' else '''') @ decimalDigits \<lfloor>\<bar>q\<bar>\<rfloor>
          else undefined
      | PosInf \<Rightarrow> ''Infinity''
      | NegInf \<Rightarrow> ''-Infinity''
      | NaN \<Rightarrow> ''NaN'')"

text \<open>
  The text of a \<open>URLSearchParams\<close>, the \<open>application/x-www-form-urlencoded\<close>
  serialisation: each name and value is encoded in UTF-8; a space becomes \<open>+\<close>; letters,
  digits and \<open>* - . _\<close> stay; every other byte becomes \<open>%\<close> and two hexadecimal digits;
  the pairs \<open>name=value\<close> are joined by \<open>&\<close>. A character is a code unit below 256.
\<close>

definition hexDigit :: "nat \<Rightarrow> char" where
  "hexDigit n = ''0123456789ABCDEF'' ! n"

definition urlencodedByte :: "nat \<Rightarrow> string" where
  "urlencodedByte b =
     (if b = 0x20 then ''+''
      else if b = 0x2A \<or> b = 0x2D \<or> b = 0x2E \<or> b = 0x5F \<or> (0x30 \<le> b \<and> b \<le> 0x39)
              \<or> (0x41 \<le> b \<and> b \<le> 0x5A) \<or> (0x61 \<le> b \<and> b \<le> 0x7A)
           then [char_of b]
           else [CHR ''%'', hexDigit (b div 16), hexDigit (b mod 16)])"

definition utf8Bytes :: "char \<Rightarrow> nat list" where
  "utf8Bytes c =
     (let n = of_char c
      in if n < 0x80 then [n] else [0xC0 + n div 64, 0x80 + n mod 64])"

definition urlencodedString :: "string \<Rightarrow> string" where
  "urlencodedString s = concat (map (\<lambda>c. concat (map urlencodedByte (utf8Bytes c))) s)"

fun joinPairs :: "string list \<Rightarrow> string" where
  "joinPairs [] = ''''"
| "joinPairs [p] = p"
| "joinPairs (p # q # ps) = p @ ''&'' @ joinPairs (q # ps)"

definition urlencoded :: "(string \<times> string) list \<Rightarrow> string" where
  "urlencoded params =
     joinPairs (map (\<lambda>(k, v). urlencodedString k @ ''='' @ urlencodedString v) params)"

text \<open>A runtime whose \<open>fetch\<close> gives the same answer to every request.\<close>

definition sampleRuntime :: "'a fetch_result \<Rightarrow> 'a runtime" where
  "sampleRuntime answer =
     \<lparr>numToString = integerToString,
      searchParamsToString = urlencoded,
      fetch = (\<lambda>url options. answer)\<rparr>"

text \<open>A runtime whose \<open>fetch\<close> fails, with the requested URL as the message.\<close>

definition echoRuntime :: "Product runtime" where
  "echoRuntime =
     \<lparr>numToString = integerToString,
      searchParamsToString = urlencoded,
      fetch = (\<lambda>url options. FetchRejected (TypeError url))\<rparr>"

definition failedResponse :: "rat \<Rightarrow> string \<Rightarrow> Product fetch_result" where
  "failedResponse code reason =
     FetchResolved \<lparr>ok = False, status = Fin code, statusText = reason,
                    json = Inl (SyntaxError ''Unexpected end of JSON input'')\<rparr>"

text \<open>A product record for concrete instances: only the price and the discount vary.\<close>

definition sampleProduct :: "jsnum \<Rightarrow> jsnum \<Rightarrow> Product" where
  "sampleProduct p d =
     \<lparr>product_id = 7, Product.title = ''Lamp'', Product.description = ''Desk lamp'',
      Product.price = p, Product.discount_percentage = d, discounted_price = Fin 0,
      Product.category = ''home'', Product.brand = ''Acme'', Product.rating = Fin 4,
      Product.stock = Fin 3, Product.thumbnail = '''', Product.images = [],
      external_id = None, external_source = None, is_active = True,
      created_at = '''', updated_at = ''''\<rparr>"

text \<open>A form input for concrete instances: only the title and the price vary.\<close>

definition sampleForm :: "string \<Rightarrow> jsnum \<Rightarrow> ProductCreate" where
  "sampleForm t p =
     \<lparr>title = t, description = ''Desk lamp'', price = p, discount_percentage = Some (Fin 10),
      category = ''home'', brand = Some '''', rating = Some (Fin 4), stock = Fin 3,
      thumbnail = Some '''', images = Some ''a.png''\<rparr>"

section \<open>Properties of the windowing function\<close>

lemma spacing_small: "m < 9007199254740992 \<Longrightarrow> spacing m = 1"
  by (subst spacing.simps) simp

lemma spacing_next:
  "9007199254740992 \<le> m \<Longrightarrow> m < 18014398509481984 \<Longrightarrow> spacing m = 2"
  by (subst spacing.simps) (simp add: spacing_small)

lemma nearestDouble_exact:
  assumes "\<bar>n\<bar> \<le> 9007199254740992"
  shows "nearestDouble n = n"
proof (cases "\<bar>n\<bar> < 9007199254740992")
  case True
  then have "spacing \<bar>n\<bar> = 1" by (rule spacing_small)
  then show ?thesis by (simp add: nearestDouble_def)
next
  case False
  with assms have n: "n = 9007199254740992 \<or> n = - 9007199254740992" by linarith
  then have "\<bar>n\<bar> = 9007199254740992" by auto
  then have "spacing \<bar>n\<bar> = 2" by (simp add: spacing_next)
  with n show ?thesis by (auto simp: nearestDouble_def)
qed

lemma two_53: "(2::int) ^ 53 = 9007199254740992"
  by simp

lemma dbl_add_exact: "\<bar>a + b\<bar> \<le> 9007199254740992 \<Longrightarrow> dbl_add a b = a + b"
  by (simp add: dbl_add_def nearestDouble_exact)

lemma dbl_sub_exact: "\<bar>a - b\<bar> \<le> 9007199254740992 \<Longrightarrow> dbl_sub a b = a - b"
  by (simp add: dbl_sub_def nearestDouble_exact)

lemma pushAllPages_upto:
  "0 \<le> i \<Longrightarrow> total_pages < 9007199254740992 \<Longrightarrow>
   pushAllPages i total_pages pages = Some (pages @ map PageNo [i..total_pages])"
proof (induction "nat (total_pages + 1 - i)" arbitrary: i pages)
  case 0
  then have "\<not> i \<le> total_pages" by simp
  then show ?case by (subst pushAllPages.simps) simp
next
  case (Suc n)
  then have le: "i \<le> total_pages" by linarith
  then have next_i: "dbl_add i 1 = i + 1"
    using Suc.prems by (intro dbl_add_exact) simp
  have "n = nat (total_pages + 1 - (i + 1))" using Suc.hyps(2) by linarith
  then have "pushAllPages (i + 1) total_pages (pages @ [PageNo i]) =
               Some ((pages @ [PageNo i]) @ map PageNo [i + 1..total_pages])"
    using Suc.prems by (intro Suc.hyps(1)) simp_all
  moreover have "[i..total_pages] = i # [i + 1..total_pages]"
    using le by (simp add: upto_rec1)
  ultimately show ?case
    using le next_i by (subst pushAllPages.simps) simp
qed

lemma pushWindow_upto:
  "0 \<le> i \<Longrightarrow> endPage < 9007199254740992 \<Longrightarrow>
   pushWindow i endPage total_pages pages =
     Some (pages @ map PageNo (filter (\<lambda>k. k \<noteq> 1 \<and> k \<noteq> total_pages) [i..endPage]))"
proof (induction "nat (endPage + 1 - i)" arbitrary: i pages)
  case 0
  then have "\<not> i \<le> endPage" by simp
  then show ?case by (subst pushWindow.simps) simp
next
  case (Suc n)
  then have le: "i \<le> endPage" by linarith
  then have next_i: "dbl_add i 1 = i + 1"
    using Suc.prems by (intro dbl_add_exact) simp
  have n: "n = nat (endPage + 1 - (i + 1))" using Suc.hyps(2) by linarith
  have IH: "pushWindow (i + 1) endPage total_pages ps =
               Some (ps @ map PageNo (filter (\<lambda>k. k \<noteq> 1 \<and> k \<noteq> total_pages) [i + 1..endPage]))"
    for ps
    using Suc.prems n by (intro Suc.hyps(1)) simp_all
  have "[i..endPage] = i # [i + 1..endPage]"
    using le by (simp add: upto_rec1)
  then show ?case
    using le next_i IH by (subst pushWindow.simps) simp
qed

lemma pushWindow_stuck:
  assumes "pushWindow i endPage total_pages pages = Some y"
  shows "\<not> (i \<le> endPage \<and> dbl_add i 1 = i)"
proof (rule pushWindow.raw_induct
    [where P = "\<lambda>i endPage total_pages pages y. \<not> (i \<le> endPage \<and> dbl_add i 1 = i)",
     OF _ assms])
  fix f i endPage total_pages pages y
  assume IH: "\<And>i endPage total_pages pages y.
                f i endPage total_pages pages = Some y \<Longrightarrow> \<not> (i \<le> endPage \<and> dbl_add i 1 = i)"
    and body: "(if i \<le> endPage
                then f (dbl_add i 1) endPage total_pages
                       (if i \<noteq> 1 \<and> i \<noteq> total_pages then pages @ [PageNo i] else pages)
                else Some pages) = Some y"
  show "\<not> (i \<le> endPage \<and> dbl_add i 1 = i)"
  proof
    assume stuck: "i \<le> endPage \<and> dbl_add i 1 = i"
    with body
    have "f i endPage total_pages
            (if i \<noteq> 1 \<and> i \<noteq> total_pages then pages @ [PageNo i] else pages) = Some y"
      by simp
    then have "\<not> (i \<le> endPage \<and> dbl_add i 1 = i)" by (rule IH)
    with stuck show False by contradiction
  qed
qed

lemma pushWindow_never_returns:
  "i \<le> endPage \<Longrightarrow> dbl_add i 1 = i \<Longrightarrow> pushWindow i endPage total_pages pages = None"
  using pushWindow_stuck [of i endPage total_pages pages] by (cases "pushWindow i endPage total_pages pages") auto

lemma shownPages_append: "shownPages (xs @ ys) = shownPages xs @ shownPages ys"
  by (induction xs rule: shownPages.induct) auto

lemma shownPages_map_PageNo: "shownPages (map PageNo ns) = ns"
  by (induction ns) auto

lemma spec_withEllipses_run:
  "s \<le> e \<Longrightarrow> e < t \<Longrightarrow>
   spec_withEllipses ([s..e] @ [t]) =
     map PageNo [s..e] @ (if t - e > 1 then [Ellipsis] else []) @ [PageNo t]"
proof (induction "nat (e - s)" arbitrary: s)
  case 0
  then have "s = e" by simp
  then show ?case by simp
next
  case (Suc n)
  then have lt: "s < e" by linarith
  then have u: "[s..e] = s # [s + 1..e]"
    by (simp add: upto_rec1)
  obtain r where u': "[s + 1..e] = (s + 1) # r"
    using lt by (simp add: upto_rec1)
  have "n = nat (e - (s + 1))" using Suc.hyps(2) by linarith
  from Suc.hyps(1)[OF this] lt Suc.prems
  have IH: "spec_withEllipses ([s + 1..e] @ [t]) =
     map PageNo [s + 1..e] @ (if t - e > 1 then [Ellipsis] else []) @ [PageNo t]"
    by simp
  show ?case using IH by (simp add: u u')
qed

lemma getPageNumbers_small:
  "totalPages props \<le> 5 \<Longrightarrow> getPageNumbers props = Some (map PageNo [1..totalPages props])"
  by (simp add: getPageNumbers_def pushAllPages_upto)

lemma getPageNumbers_large:
  assumes "1 \<le> currentPage props" "currentPage props \<le> totalPages props"
    "5 < totalPages props" "totalPages props < 2 ^ 53"
  shows "getPageNumbers props = Some
     ([PageNo 1] @ (if currentPage props > 3 then [Ellipsis] else [])
      @ map PageNo [max 2 (currentPage props - 1)..min (totalPages props - 1) (currentPage props + 1)]
      @ (if currentPage props < totalPages props - 2 then [Ellipsis] else [])
      @ [PageNo (totalPages props)])"
proof -
  have bound: "totalPages props < 9007199254740992"
    using assms(4) by simp
  have ar: "dbl_sub (currentPage props) 1 = currentPage props - 1"
    "dbl_add (currentPage props) 1 = currentPage props + 1"
    "dbl_sub (totalPages props) 1 = totalPages props - 1"
    "dbl_sub (totalPages props) 2 = totalPages props - 2"
    using assms(1-3) bound by (simp_all add: dbl_add_exact dbl_sub_exact)
  have w: "pushWindow (max 2 (currentPage props - 1))
             (min (totalPages props - 1) (currentPage props + 1)) (totalPages props) ps =
           Some (ps @ map PageNo
             [max 2 (currentPage props - 1)..min (totalPages props - 1) (currentPage props + 1)])"
    for ps
  proof -
    have "filter (\<lambda>k. k \<noteq> 1 \<and> k \<noteq> totalPages props)
          [max 2 (currentPage props - 1)..min (totalPages props - 1) (currentPage props + 1)]
        = [max 2 (currentPage props - 1)..min (totalPages props - 1) (currentPage props + 1)]"
      by (rule filter_True) auto
    moreover have "0 \<le> max 2 (currentPage props - 1)" by simp
    moreover have "min (totalPages props - 1) (currentPage props + 1) < 9007199254740992"
      using bound by simp
    ultimately show ?thesis by (simp add: pushWindow_upto)
  qed
  show ?thesis
    using assms(3) by (simp add: getPageNumbers_def Let_def ar w)
qed

text \<open>
  Claim C1, as amended. For integers with \<open>1 \<le> currentPage \<le> totalPages < 2^53\<close> the
  function returns: when \<open>totalPages \<le> 5\<close>, exactly the labels \<open>1..totalPages\<close> in
  order; otherwise a sequence that contains page 1 and page \<open>totalPages\<close>, contains every
  page of the window \<open>[currentPage - 1, currentPage + 1]\<close> clipped to
  \<open>[2, totalPages - 1]\<close> (the shown pages are exactly 1, that window and \<open>totalPages\<close>, in
  this order), and is the sequence of its shown pages with an ellipsis exactly between
  neighbours that differ by more than one.
\<close>

theorem getPageNumbers_window:
  assumes "1 \<le> currentPage props" and "currentPage props \<le> totalPages props"
    and "totalPages props < 2 ^ 53"
  shows "(totalPages props \<le> 5 \<longrightarrow>
            getPageNumbers props = Some (map PageNo [1..totalPages props])) \<and>
         (5 < totalPages props \<longrightarrow>
            (\<exists>labels. getPageNumbers props = Some labels \<and>
               PageNo 1 \<in> set labels \<and>
               PageNo (totalPages props) \<in> set labels \<and>
               (\<forall>i. max 2 (currentPage props - 1) \<le> i \<and>
                    i \<le> min (totalPages props - 1) (currentPage props + 1) \<longrightarrow>
                    PageNo i \<in> set labels) \<and>
               shownPages labels =
                 1 # [max 2 (currentPage props - 1)..
                      min (totalPages props - 1) (currentPage props + 1)]
                   @ [totalPages props] \<and>
               labels = spec_withEllipses (shownPages labels)))"
proof (intro conjI impI)
  assume "totalPages props \<le> 5"
  then show "getPageNumbers props = Some (map PageNo [1..totalPages props])"
    by (rule getPageNumbers_small)
next
  assume big: "5 < totalPages props"
  define s where "s = max 2 (currentPage props - 1)"
  define e where "e = min (totalPages props - 1) (currentPage props + 1)"
  define t where "t = totalPages props"
  define pre where "pre = (if currentPage props > 3 then [Ellipsis] else [])"
  define post where "post = (if currentPage props < totalPages props - 2 then [Ellipsis] else [])"
  define labels where "labels = [PageNo 1] @ pre @ map PageNo [s..e] @ post @ [PageNo t]"
  have res: "getPageNumbers props = Some labels"
    unfolding labels_def s_def e_def t_def pre_def post_def
    using assms(1,2) big assms(3) by (rule getPageNumbers_large)
  have se: "s \<le> e" and et: "e < t" and s2: "2 \<le> s"
    using assms big by (auto simp: s_def e_def t_def)
  have shown: "shownPages labels = 1 # [s..e] @ [t]"
    by (simp add: labels_def shownPages_append shownPages_map_PageNo pre_def post_def)
  have m1: "PageNo 1 \<in> set labels"
    by (simp add: labels_def)
  have mt: "PageNo (totalPages props) \<in> set labels"
    by (simp add: labels_def t_def)
  have mw: "\<forall>i. max 2 (currentPage props - 1) \<le> i \<and>
             i \<le> min (totalPages props - 1) (currentPage props + 1) \<longrightarrow>
             PageNo i \<in> set labels"
    by (auto simp: labels_def s_def e_def)
  have sh: "shownPages labels =
          1 # [max 2 (currentPage props - 1)..
               min (totalPages props - 1) (currentPage props + 1)] @ [totalPages props]"
    using shown by (simp add: s_def e_def t_def)
  have head: "[s..e] = s # [s + 1..e]"
    using se by (simp add: upto_rec1)
  have pre_iff: "1 < s - 1 \<longleftrightarrow> 3 < currentPage props"
    by (auto simp: s_def)
  have post_iff: "1 < t - e \<longleftrightarrow> currentPage props < totalPages props - 2"
    using assms big by (auto simp: e_def t_def)
  have "spec_withEllipses (1 # [s..e] @ [t]) =
          PageNo 1 # pre @ spec_withEllipses ([s..e] @ [t])"
    using pre_iff by (simp add: head pre_def)
  also have "spec_withEllipses ([s..e] @ [t]) = map PageNo [s..e] @ post @ [PageNo t]"
    using spec_withEllipses_run [OF se et] post_iff by (simp add: post_def)
  finally have "spec_withEllipses (1 # [s..e] @ [t]) = labels"
    by (simp add: labels_def)
  then have el: "labels = spec_withEllipses (shownPages labels)"
    by (simp only: shown)
  show "\<exists>labels. getPageNumbers props = Some labels \<and>
               PageNo 1 \<in> set labels \<and>
               PageNo (totalPages props) \<in> set labels \<and>
               (\<forall>i. max 2 (currentPage props - 1) \<le> i \<and>
                    i \<le> min (totalPages props - 1) (currentPage props + 1) \<longrightarrow>
                    PageNo i \<in> set labels) \<and>
               shownPages labels =
                 1 # [max 2 (currentPage props - 1)..
                      min (totalPages props - 1) (currentPage props + 1)]
                   @ [totalPages props] \<and>
               labels = spec_withEllipses (shownPages labels)"
    using res m1 mt mw sh el by blast
qed

theorem getPageNumbers_window_witness:
  "getPageNumbers \<lparr>currentPage = 2, totalPages = 4, onPageChange = id,
                    hasNext = True, hasPrev = True\<rparr>
     = Some [PageNo 1, PageNo 2, PageNo 3, PageNo 4] \<and>
   getPageNumbers \<lparr>currentPage = 7, totalPages = 9, onPageChange = id,
                    hasNext = True, hasPrev = True\<rparr>
     = Some (spec_withEllipses [1, 6, 7, 8, 9])"
  using getPageNumbers_window [of "\<lparr>currentPage = 2, totalPages = 4, onPageChange = id,
                    hasNext = True, hasPrev = True\<rparr>"]
        getPageNumbers_window [of "\<lparr>currentPage = 7, totalPages = 9, onPageChange = id,
                    hasNext = True, hasPrev = True\<rparr>"]
  by (auto simp: upto_rec1)

text \<open>
  Claim C4. With \<open>totalPages = 10\<close> and \<open>currentPage = 5\<close> the function returns the
  labels \<open>[1, ellipsis, 4, 5, 6, ellipsis, 10]\<close>; with \<open>totalPages = 3\<close> and
  \<open>currentPage = 1\<close> it returns \<open>[1, 2, 3]\<close>, whatever the other props are.
\<close>

theorem getPageNumbers_examples:
  "getPageNumbers \<lparr>currentPage = 5, totalPages = 10, onPageChange = cb,
                    hasNext = hn, hasPrev = hp\<rparr>
     = Some [PageNo 1, Ellipsis, PageNo 4, PageNo 5, PageNo 6, Ellipsis, PageNo 10] \<and>
   getPageNumbers \<lparr>currentPage = 1, totalPages = 3, onPageChange = cb,
                    hasNext = hn, hasPrev = hp\<rparr>
     = Some [PageNo 1, PageNo 2, PageNo 3]"
  by (simp add: getPageNumbers_def pushAllPages_upto pushWindow_upto upto_rec1
      dbl_add_exact dbl_sub_exact)

text \<open>
  Beyond \<open>2^53\<close> the loop counter no longer advances: with \<open>currentPage = 2^53\<close> and
  \<open>totalPages = 2^53 + 4\<close>, both doubles, \<open>end\<close> is \<open>2^53\<close> and \<open>i++\<close> leaves
  \<open>i\<close> at \<open>2^53\<close>, so the function does not return.
\<close>

theorem getPageNumbers_unsafe_counterexample:
  "(1::int) \<le> 2 ^ 53 \<and> (2::int) ^ 53 \<le> 2 ^ 53 + 4 \<and>
   nearestDouble (2 ^ 53) = 2 ^ 53 \<and> nearestDouble (2 ^ 53 + 4) = 2 ^ 53 + 4 \<and>
   getPageNumbers \<lparr>currentPage = 2 ^ 53, totalPages = 2 ^ 53 + 4, onPageChange = id,
                    hasNext = True, hasPrev = True\<rparr> = None"
proof -
  have a: "dbl_sub 9007199254740992 1 = 9007199254740991"
    by (simp add: dbl_sub_exact)
  have b: "dbl_sub 9007199254740996 1 = 9007199254740996"
    by (simp add: dbl_sub_def nearestDouble_def spacing_next)
  have c: "dbl_add 9007199254740992 1 = 9007199254740992"
    by (simp add: dbl_add_def nearestDouble_def spacing_next)
  have d: "dbl_add 9007199254740991 1 = 9007199254740992"
    by (simp add: dbl_add_exact)
  have stuck: "pushWindow 9007199254740992 9007199254740992 t ps = None" for t ps
    using c by (intro pushWindow_never_returns) simp_all
  have loop: "pushWindow 9007199254740991 9007199254740992 t ps = None" for t ps
    by (subst pushWindow.simps) (simp add: d stuck)
  have e: "nearestDouble 9007199254740996 = 9007199254740996"
    by (simp add: nearestDouble_def spacing_next)
  show ?thesis
    by (simp add: getPageNumbers_def a b c loop e nearestDouble_exact)
qed



section \<open>Properties of the listing page\<close>

text \<open>
  Claim C9. After the filter-change handler and after the sort-change handler of the
  listing page the current page is 1, whatever the state and the argument were, so the
  next list request asks for page 1.
\<close>

theorem handlers_reset_page:
  "ProductList_state.currentPage (handleFiltersChange newFilters s) = 1 \<and>
   ProductList_state.currentPage (handleSortChange field s) = 1 \<and>
   page (paginationParams (handleFiltersChange newFilters s)) = 1 \<and>
   page (paginationParams (handleSortChange field s)) = 1"
  by (simp add: handleFiltersChange_def handleSortChange_def paginationParams_def Let_def)

section \<open>Properties of the price box\<close>

lemma toDouble_1: "toDouble 1 = Fin 1"
  by code_simp

lemma toDouble_0: "toDouble 0 = Fin 0"
  by (simp add: toDouble_def)


text \<open>
  Claim C8. The pre-discount amount \<open>price / (1 - discount_percentage / 100)\<close> is computed
  under the guard \<open>discount_percentage > 0\<close> alone. For a product whose discount is 100,
  which the invariant \<open>0 <= discountPercentage <= 100\<close> permits, the guard passes, the
  divisor is zero, and the amount that is rendered is not finite, whatever the price is.
\<close>

theorem full_discount_division_unguarded:
  assumes "Product.discount_percentage p = Fin 100"
  shows "js_le (Fin 0) (Product.discount_percentage p) \<and>
         js_le (Product.discount_percentage p) (Fin 100) \<and>
         js_gt (Product.discount_percentage p) (Fin 0) \<and>
         discountDivisor p = Fin 0 \<and>
         discountRow (priceBox p) = Some (originalPrice p, Fin 100) \<and>
         \<not> isFinite (originalPrice p)"
proof -
  have dz: "discountDivisor p = Fin 0"
    using assms by (simp add: discountDivisor_def toDouble_1 toDouble_0)
  have nf: "\<not> isFinite (originalPrice p)"
    by (cases "Product.price p") (simp_all add: originalPrice_def dz)
  then have "toFixed2 (originalPrice p) = originalPrice p"
    by (cases "originalPrice p") simp_all
  then show ?thesis
    using assms dz nf by (simp add: priceBox_def js_gt_def)
qed

theorem full_discount_division_unguarded_witness:
  "discountDivisor (sampleProduct (Fin 25) (Fin 100)) = Fin 0 \<and>
   discountRow (priceBox (sampleProduct (Fin 25) (Fin 100))) = Some (PosInf, Fin 100) \<and>
   \<not> isFinite (originalPrice (sampleProduct (Fin 25) (Fin 100)))"
  using full_discount_division_unguarded [of "sampleProduct (Fin 25) (Fin 100)"]
  by (simp add: sampleProduct_def originalPrice_def discountDivisor_def toDouble_1 toDouble_0)









section \<open>Properties of the API client\<close>

lemma appendFilters_eq:
  "appendFilters toStr fs params =
     params @ map (\<lambda>kv. (fst kv, js_String toStr (snd kv))) (filter (\<lambda>kv. isPresent (snd kv)) fs)"
  by (induction toStr fs params rule: appendFilters.induct) (simp_all add: isPresent_def)

lemma filter_key_distinct:
  "distinct (map fst fs) \<Longrightarrow>
   filter (\<lambda>kv. fst kv = k) fs = (case map_of fs k of Some v \<Rightarrow> [(k, v)] | None \<Rightarrow> [])"
proof (induction fs)
  case Nil
  then show ?case by simp
next
  case (Cons kv fs)
  obtain k' v' where kv: "kv = (k', v')" by (cases kv)
  show ?case
  proof (cases "k' = k")
    case True
    with Cons.prems kv have "k \<notin> fst ` set fs" by simp
    then have "filter (\<lambda>kv. fst kv = k) fs = []"
      by (auto simp: filter_empty_conv)
    with True kv show ?thesis by simp
  next
    case False
    with Cons kv show ?thesis by simp
  qed
qed

lemma filter_key_sort_page:
  assumes "k \<in> set ProductFilter_keys"
  shows "filter (\<lambda>kv. fst kv = k) (getProducts_params toStr filters' sort' pagination) =
         filter (\<lambda>kv. fst kv = k) (getProducts_params toStr filters' None None)"
proof -
  have k: "k \<noteq> ''sort_by''" "k \<noteq> ''sort_order''" "k \<noteq> ''page''" "k \<noteq> ''size''"
    using assms by (auto simp: ProductFilter_keys_def)
  show ?thesis
    using k by (simp add: getProducts_params_def Let_def split: option.splits)
qed

text \<open>
  Claim C6. In the list request, a filter option whose value is \<open>undefined\<close>, \<open>null\<close> or
  the empty string adds nothing to the query: the parameters built from a filter object are
  exactly its entries with any other value, in order, each forwarded as \<open>String(value)\<close>,
  and the sort and page parameters never add or remove a filter key. The request that
  \<open>getProducts\<close> makes is for \<open>/products\<close> followed, when the text of these parameters
  is not empty, by \<open>?\<close> and that text. \<open>String\<close> turns \<open>true\<close> and \<open>false\<close> into
  their names, a number into its decimal text and a string into itself, so a present value
  is never dropped: \<open>false\<close> is sent as \<open>false\<close> and 0 as the text of 0.
\<close>

theorem getProducts_forwards_present_filters:
  assumes "distinct (map fst fs)" and "k \<in> set ProductFilter_keys"
  shows "getProducts_params toStr (Some fs) None None =
           map (\<lambda>kv. (fst kv, js_String toStr (snd kv))) (filter (\<lambda>kv. isPresent (snd kv)) fs) \<and>
         filter (\<lambda>kv. fst kv = k) (getProducts_params toStr (Some fs) sort' pagination) =
           (case map_of fs k of
              None \<Rightarrow> []
            | Some v \<Rightarrow> if v = JUndefined \<or> v = JNull \<or> v = JStr '''' then []
                       else [(k, js_String toStr v)]) \<and>
         getProducts rt (Some fs) sort' pagination =
           request rt
             (''/products'' @
                (if searchParamsToString rt
                      (getProducts_params (numToString rt) (Some fs) sort' pagination) = ''''
                 then ''''
                 else ''?'' @ searchParamsToString rt
                      (getProducts_params (numToString rt) (Some fs) sort' pagination)))
             \<lparr>http_method = None, body = None\<rparr> \<and>
         js_String toStr (JBool b) = (if b then ''true'' else ''false'') \<and>
         js_String toStr (JNum n) = toStr n \<and>
         js_String toStr (JBool False) = ''false'' \<and>
         js_String toStr (JNum (Fin 0)) = toStr (Fin 0) \<and>
         js_String toStr (JStr s) = s"
proof -
  let ?g = "\<lambda>kv. (fst kv, js_String toStr (snd kv))"
  have all: "getProducts_params toStr (Some fs) None None =
               map ?g (filter (\<lambda>kv. isPresent (snd kv)) fs)"
    by (simp add: getProducts_params_def appendFilters_eq)
  have "filter (\<lambda>kv. fst kv = k) (map ?g (filter (\<lambda>kv. isPresent (snd kv)) fs)) =
          map ?g (filter (\<lambda>kv. isPresent (snd kv)) (filter (\<lambda>kv. fst kv = k) fs))"
    by (simp add: filter_map o_def conj_commute)
  also have "\<dots> = (case map_of fs k of
              None \<Rightarrow> []
            | Some v \<Rightarrow> if v = JUndefined \<or> v = JNull \<or> v = JStr '''' then []
                       else [(k, js_String toStr v)])"
    by (simp add: filter_key_distinct [OF assms(1)] isPresent_def split: option.splits)
  finally have one: "filter (\<lambda>kv. fst kv = k) (getProducts_params toStr (Some fs) None None) =
          (case map_of fs k of
              None \<Rightarrow> []
            | Some v \<Rightarrow> if v = JUndefined \<or> v = JNull \<or> v = JStr '''' then []
                       else [(k, js_String toStr v)])"
    by (simp only: all)
  have key: "filter (\<lambda>kv. fst kv = k) (getProducts_params toStr (Some fs) sort' pagination) =
          filter (\<lambda>kv. fst kv = k) (getProducts_params toStr (Some fs) None None)"
    using assms(2) by (rule filter_key_sort_page)
  have req: "getProducts rt (Some fs) sort' pagination =
           request rt
             (''/products'' @
                (if searchParamsToString rt
                      (getProducts_params (numToString rt) (Some fs) sort' pagination) = ''''
                 then ''''
                 else ''?'' @ searchParamsToString rt
                      (getProducts_params (numToString rt) (Some fs) sort' pagination)))
             \<lparr>http_method = None, body = None\<rparr>"
    by (simp add: getProducts_def Let_def)
  show ?thesis
    using one all key req by simp
qed

theorem getProducts_forwards_present_filters_witness:
  "getProducts echoRuntime
     (Some [(''search'', JStr ''''), (''category'', JStr ''home decor''), (''brand'', JNull),
            (''min_price'', JNum (Fin 0)), (''max_price'', JUndefined),
            (''in_stock'', JBool False), (''min_rating'', JNum (Fin 4))])
     (Some \<lparr>sort_by = ''title'', sort_order = ''asc''\<rparr>)
     (Some \<lparr>page = 1, page_size = 12\<rparr>)
   = Inl (TypeError (''http://localhost:8000/api/v1/products?category=home+decor'' @
        ''&min_price=0&in_stock=false&min_rating=4&sort_by=title&sort_order=asc&page=1&size=12''))
   \<and>
   filter (\<lambda>kv. fst kv = ''in_stock'')
     (getProducts_params integerToString
        (Some [(''search'', JStr ''''), (''category'', JStr ''home decor''), (''brand'', JNull),
               (''min_price'', JNum (Fin 0)), (''max_price'', JUndefined),
               (''in_stock'', JBool False), (''min_rating'', JNum (Fin 4))])
        (Some \<lparr>sort_by = ''title'', sort_order = ''asc''\<rparr>)
        (Some \<lparr>page = 1, page_size = 12\<rparr>))
     = [(''in_stock'', ''false'')]"
  using getProducts_forwards_present_filters
    [of "[(''search'', JStr ''''), (''category'', JStr ''home decor''), (''brand'', JNull),
          (''min_price'', JNum (Fin 0)), (''max_price'', JUndefined),
          (''in_stock'', JBool False), (''min_rating'', JNum (Fin 4))]"
        "''in_stock''" integerToString
        "Some \<lparr>sort_by = ''title'', sort_order = ''asc''\<rparr>"
        "Some \<lparr>page = 1, page_size = 12\<rparr>" echoRuntime]
  by code_simp

text \<open>
  Claim C2, as amended. \<open>request\<close> throws the one generic \<open>Error\<close> for every response
  that is not ok, with the status code and the status text in its message only; a rejection
  of \<open>fetch\<close> is passed on as it is; and the product page, once it is not loading, shows
  "Product not found" exactly when there is an error or there is no product, so for every
  failed request.
\<close>

theorem request_failures_generic:
  "(\<forall>response. fetch rt (API_BASE_URL @ endpoint) options = FetchResolved response \<and> \<not> ok response \<longrightarrow>
      request rt endpoint options =
        Inl (Error (''API request failed: '' @ numToString rt (status response)
                     @ '' '' @ statusText response))) \<and>
   (\<forall>e. fetch rt (API_BASE_URL @ endpoint) options = FetchRejected e \<longrightarrow>
      request rt endpoint options = Inl e) \<and>
   (\<forall>e. ProductDetail_render (useQuery_settled (Inl e)) False = ProductNotFoundView) \<and>
   (\<forall>q. \<not> isLoading q \<longrightarrow>
      (ProductDetail_render q False = ProductNotFoundView) = (error q \<noteq> None \<or> data q = None))"
  by (auto simp: request_def ProductDetail_render_def useQuery_settled_def
      split: option.splits)

lemma integerToString_404: "integerToString (Fin 404) = ''404''"
  by code_simp

lemma integerToString_503: "integerToString (Fin 503) = ''503''"
  by code_simp

lemma integerToString_7: "integerToString (Fin 7) = ''7''"
  by code_simp

theorem request_failures_generic_witness:
  "request (sampleRuntime (failedResponse 404 ''Not Found'')) ''/products/7''
      \<lparr>http_method = None, body = None\<rparr>
     = Inl (Error ''API request failed: 404 Not Found'') \<and>
   request (sampleRuntime (FetchRejected (TypeError ''Failed to fetch'') :: Product fetch_result))
      ''/products/7'' \<lparr>http_method = None, body = None\<rparr>
     = Inl (TypeError ''Failed to fetch'') \<and>
   ProductDetail_render
     \<lparr>data = Some (sampleProduct (Fin 10) (Fin 30)), isLoading = False,
      error = Some (Error ''API request failed: 503 Service Unavailable'')\<rparr> False
     = ProductNotFoundView \<and>
   ProductDetail_render \<lparr>data = None, isLoading = False, error = None\<rparr> False
     = ProductNotFoundView \<and>
   ProductDetail_render
     \<lparr>data = Some (sampleProduct (Fin 10) (Fin 0)), isLoading = False, error = None\<rparr> False
     \<noteq> ProductNotFoundView"
  using request_failures_generic
    [of "sampleRuntime (failedResponse 404 ''Not Found'')" "''/products/7''"
        "\<lparr>http_method = None, body = None\<rparr>"]
    request_failures_generic
    [of "sampleRuntime (FetchRejected (TypeError ''Failed to fetch'') :: Product fetch_result)"
        "''/products/7''" "\<lparr>http_method = None, body = None\<rparr>"]
  by (simp add: sampleRuntime_def failedResponse_def integerToString_404
      ProductDetail_render_def)

text \<open>
  A missing product (404) and an unavailable store (503) are thrown as the same kind of
  error, and with a failed connection all three give the same "Product not found" page.
\<close>

theorem failures_collapsed_counterexample:
  "getProduct (sampleRuntime (failedResponse 404 ''Not Found'')) 7
     = Inl (Error ''API request failed: 404 Not Found'') \<and>
   getProduct (sampleRuntime (failedResponse 503 ''Service Unavailable'')) 7
     = Inl (Error ''API request failed: 503 Service Unavailable'') \<and>
   ProductDetail_render
     (useQuery_settled (getProduct (sampleRuntime (failedResponse 404 ''Not Found'')) 7)) False
     = ProductNotFoundView \<and>
   ProductDetail_render
     (useQuery_settled
        (getProduct (sampleRuntime (failedResponse 503 ''Service Unavailable'')) 7)) False
     = ProductNotFoundView \<and>
   ProductDetail_render
     (useQuery_settled
        (getProduct (sampleRuntime (FetchRejected (TypeError ''Failed to fetch''))) 7)) False
     = ProductNotFoundView"
  by (simp add: getProduct_def request_def sampleRuntime_def failedResponse_def
      integerToString_404 integerToString_503 integerToString_7
      ProductDetail_render_def useQuery_settled_def)


section \<open>Properties of the product form\<close>

lemma price_check: "x \<noteq> NaN \<Longrightarrow> js_le x (Fin 0) = (\<not> js_gt x (Fin 0))"
  by (cases x) (auto simp: js_gt_def)

lemma stock_check: "x \<noteq> NaN \<Longrightarrow> js_lt x (Fin 0) = (\<not> js_le (Fin 0) x)"
  by (cases x) auto

lemma range_check:
  "x \<noteq> NaN \<Longrightarrow> 0 \<le> b \<Longrightarrow>
   (js_truthy x \<and> (js_lt x (Fin 0) \<or> js_gt x (Fin b))) = (\<not> (js_le (Fin 0) x \<and> js_le x (Fin b)))"
  by (cases x) (auto simp: js_gt_def)

lemma map_fst_push:
  "map fst (if c then xs @ [(k, m)] else xs) = map fst xs @ (if c then [k] else [])"
  by simp

lemma map_fst_push_opt:
  "map fst (case x of None \<Rightarrow> xs | Some d \<Rightarrow> if c d then xs @ [(k, m)] else xs) =
     map fst xs @ (case x of None \<Rightarrow> [] | Some d \<Rightarrow> if c d then [k] else [])"
  by (simp split: option.split)

lemma validateForm_keys:
  "map fst (fst (validateForm fd)) =
     (if trim (title fd) = '''' then [''title''] else [])
     @ (if trim (description fd) = '''' then [''description''] else [])
     @ (if js_le (price fd) (Fin 0) then [''price''] else [])
     @ (case discount_percentage fd of None \<Rightarrow> []
        | Some d \<Rightarrow> if js_truthy d \<and> (js_lt d (Fin 0) \<or> js_gt d (Fin 100))
                    then [''discount_percentage''] else [])
     @ (if category fd = '''' then [''category''] else [])
     @ (if js_lt (stock fd) (Fin 0) then [''stock''] else [])
     @ (case rating fd of None \<Rightarrow> []
        | Some r \<Rightarrow> if js_truthy r \<and> (js_lt r (Fin 0) \<or> js_gt r (Fin 5))
                    then [''rating''] else [])"
  unfolding validateForm_def Let_def fst_conv map_fst_push map_fst_push_opt
  by (simp only: list.map append_Nil append_assoc)

lemma validateForm_ok: "snd (validateForm fd) = (map fst (fst (validateForm fd)) = [])"
  unfolding validateForm_def Let_def snd_conv fst_conv
  by (simp only: length_0_conv)

lemma price_reported:
  "price fd \<noteq> NaN \<Longrightarrow> \<not> js_gt (price fd) (Fin 0) \<Longrightarrow>
   ''price'' \<in> set (map fst (fst (validateForm fd)))"
  by (simp add: validateForm_keys price_check)

lemma discount_reported:
  assumes "discount_percentage fd \<noteq> Some NaN"
    and "case discount_percentage fd of None \<Rightarrow> False
         | Some d \<Rightarrow> \<not> (js_le (Fin 0) d \<and> js_le d (Fin 100))"
  shows "''discount_percentage'' \<in> set (map fst (fst (validateForm fd)))"
proof (cases "discount_percentage fd")
  case None
  with assms show ?thesis by simp
next
  case (Some d)
  with assms have "d \<noteq> NaN" and "\<not> (js_le (Fin 0) d \<and> js_le d (Fin 100))" by simp_all
  then have "js_truthy d \<and> (js_lt d (Fin 0) \<or> js_gt d (Fin 100))"
    using range_check [of d 100] by simp
  with Some show ?thesis by (simp add: validateForm_keys)
qed

lemma rating_reported:
  assumes "rating fd \<noteq> Some NaN"
    and "case rating fd of None \<Rightarrow> False
         | Some r \<Rightarrow> \<not> (js_le (Fin 0) r \<and> js_le r (Fin 5))"
  shows "''rating'' \<in> set (map fst (fst (validateForm fd)))"
proof (cases "rating fd")
  case None
  with assms show ?thesis by simp
next
  case (Some r)
  with assms have "r \<noteq> NaN" and "\<not> (js_le (Fin 0) r \<and> js_le r (Fin 5))" by simp_all
  then have "js_truthy r \<and> (js_lt r (Fin 0) \<or> js_gt r (Fin 5))"
    using range_check [of r 5] by simp
  with Some show ?thesis by (simp add: validateForm_keys)
qed

lemma stock_reported:
  "stock fd \<noteq> NaN \<Longrightarrow> \<not> js_le (Fin 0) (stock fd) \<Longrightarrow>
   ''stock'' \<in> set (map fst (fst (validateForm fd)))"
  by (simp add: validateForm_keys stock_check)

lemma in_spec_violatedFields:
  "f \<in> set (spec_violatedFields fd) \<longleftrightarrow>
     f = ''price'' \<and> \<not> js_gt (price fd) (Fin 0) \<or>
     f = ''discount_percentage'' \<and>
       (case discount_percentage fd of None \<Rightarrow> False
        | Some d \<Rightarrow> \<not> (js_le (Fin 0) d \<and> js_le d (Fin 100))) \<or>
     f = ''rating'' \<and>
       (case rating fd of None \<Rightarrow> False
        | Some r \<Rightarrow> \<not> (js_le (Fin 0) r \<and> js_le r (Fin 5))) \<or>
     f = ''stock'' \<and> \<not> js_le (Fin 0) (stock fd)"
proof -
  have 1: "f \<in> set (if js_gt (price fd) (Fin 0) then [] else [''price'']) \<longleftrightarrow>
             f = ''price'' \<and> \<not> js_gt (price fd) (Fin 0)"
    by simp
  have 2: "f \<in> set (case discount_percentage fd of None \<Rightarrow> []
             | Some d \<Rightarrow> if js_le (Fin 0) d \<and> js_le d (Fin 100) then []
                         else [''discount_percentage'']) \<longleftrightarrow>
           f = ''discount_percentage'' \<and>
             (case discount_percentage fd of None \<Rightarrow> False
              | Some d \<Rightarrow> \<not> (js_le (Fin 0) d \<and> js_le d (Fin 100)))"
    by (cases "discount_percentage fd") simp_all
  have 3: "f \<in> set (case rating fd of None \<Rightarrow> []
             | Some r \<Rightarrow> if js_le (Fin 0) r \<and> js_le r (Fin 5) then [] else [''rating'']) \<longleftrightarrow>
           f = ''rating'' \<and>
             (case rating fd of None \<Rightarrow> False
              | Some r \<Rightarrow> \<not> (js_le (Fin 0) r \<and> js_le r (Fin 5)))"
    by (cases "rating fd") simp_all
  have 4: "f \<in> set (if js_le (Fin 0) (stock fd) then [] else [''stock'']) \<longleftrightarrow>
             f = ''stock'' \<and> \<not> js_le (Fin 0) (stock fd)"
    by simp
  show ?thesis
    unfolding spec_violatedFields_def set_append Un_iff 1 2 3 4 ..
qed

lemma validateForm_violated:
  assumes "price fd \<noteq> NaN" and "stock fd \<noteq> NaN"
    and "discount_percentage fd \<noteq> Some NaN" and "rating fd \<noteq> Some NaN"
  shows "set (spec_violatedFields fd) \<subseteq> set (map fst (fst (validateForm fd)))"
proof
  fix f
  assume "f \<in> set (spec_violatedFields fd)"
  then show "f \<in> set (map fst (fst (validateForm fd)))"
    unfolding in_spec_violatedFields
    using price_reported [OF assms(1)] discount_reported [OF assms(3)]
      rating_reported [OF assms(4)] stock_reported [OF assms(2)]
    by blast
qed

lemma spec_violatedFields_Nil:
  "(spec_violatedFields fd = []) =
     (js_gt (price fd) (Fin 0) \<and>
      (case discount_percentage fd of None \<Rightarrow> True
       | Some d \<Rightarrow> js_le (Fin 0) d \<and> js_le d (Fin 100)) \<and>
      (case rating fd of None \<Rightarrow> True | Some r \<Rightarrow> js_le (Fin 0) r \<and> js_le r (Fin 5)) \<and>
      js_le (Fin 0) (stock fd))"
  by (simp add: spec_violatedFields_def split: option.splits)

lemma validateForm_passes:
  assumes "price fd \<noteq> NaN" and "stock fd \<noteq> NaN"
    and "discount_percentage fd \<noteq> Some NaN" and "rating fd \<noteq> Some NaN"
    and "spec_violatedFields fd = []"
    and "trim (title fd) \<noteq> ''''" and "trim (description fd) \<noteq> ''''" and "category fd \<noteq> ''''"
  shows "map fst (fst (validateForm fd)) = []"
proof -
  have p: "\<not> js_le (price fd) (Fin 0)"
    using assms(1,5) by (simp add: spec_violatedFields_Nil price_check)
  have s: "\<not> js_lt (stock fd) (Fin 0)"
    using assms(2,5) by (simp add: spec_violatedFields_Nil stock_check)
  have d: "(case discount_percentage fd of None \<Rightarrow> []
        | Some d \<Rightarrow> if js_truthy d \<and> (js_lt d (Fin 0) \<or> js_gt d (Fin 100))
                    then [''discount_percentage''] else []) = []"
    using assms(3,5) range_check [of _ 100]
    by (auto simp: spec_violatedFields_Nil split: option.splits)
  have r: "(case rating fd of None \<Rightarrow> []
        | Some r \<Rightarrow> if js_truthy r \<and> (js_lt r (Fin 0) \<or> js_gt r (Fin 5))
                    then [''rating''] else []) = []"
    using assms(4,5) range_check [of _ 5]
    by (auto simp: spec_violatedFields_Nil split: option.splits)
  show ?thesis
    unfolding validateForm_keys d r using p s assms(6-8) by simp
qed

text \<open>
  Claim C5, as amended. For a form input whose numeric fields are not NaN: every field whose
  invariant is violated (price not above 0, a discount outside 0..100, a rating outside
  0..5, a negative stock) has an error under its name; if there is such a field, validation
  fails and no request is made; and an input that violates none, with a title and a
  description that are not blank and a category that is not empty, passes validation with
  no error and is submitted: as \<open>createProduct(formData)\<close> in create mode, and as
  \<open>updateProduct(product.id, cleanData)\<close> in edit mode when the product is given.
\<close>

theorem validateForm_enforces_invariants:
  assumes "price fd \<noteq> NaN" and "stock fd \<noteq> NaN"
    and "discount_percentage fd \<noteq> Some NaN" and "rating fd \<noteq> Some NaN"
  shows "set (spec_violatedFields fd) \<subseteq> fst ` set (fst (validateForm fd)) \<and>
         (spec_violatedFields fd \<noteq> [] \<longrightarrow>
            \<not> snd (validateForm fd) \<and> handleSubmit mode product fd = None) \<and>
         (spec_violatedFields fd = [] \<and> trim (title fd) \<noteq> '''' \<and>
          trim (description fd) \<noteq> '''' \<and> category fd \<noteq> '''' \<longrightarrow>
            validateForm fd = ([], True) \<and>
            handleSubmit CreateMode product fd = Some (CreateProduct fd) \<and>
            handleSubmit EditMode (Some p) fd
              = Some (UpdateProduct (product_id p) (cleanData fd)))"
proof (intro conjI impI)
  show sub: "set (spec_violatedFields fd) \<subseteq> fst ` set (fst (validateForm fd))"
    using validateForm_violated [OF assms] by simp
  {
    assume "spec_violatedFields fd \<noteq> []"
    then obtain f where "f \<in> set (spec_violatedFields fd)"
      by (cases "spec_violatedFields fd") auto
    with sub have "map fst (fst (validateForm fd)) \<noteq> []" by auto
    then show bad: "\<not> snd (validateForm fd)"
      by (simp add: validateForm_ok)
    then show "handleSubmit mode product fd = None"
      by (simp add: handleSubmit_def)
  }
  {
    assume ok: "spec_violatedFields fd = [] \<and> trim (title fd) \<noteq> '''' \<and>
          trim (description fd) \<noteq> '''' \<and> category fd \<noteq> ''''"
    then have "map fst (fst (validateForm fd)) = []"
      using validateForm_passes [OF assms] by blast
    then have v: "fst (validateForm fd) = []" "snd (validateForm fd)"
      by (simp_all add: validateForm_ok)
    then show "validateForm fd = ([], True)"
      by (simp add: prod_eq_iff)
    show "handleSubmit CreateMode product fd = Some (CreateProduct fd)"
      using v by (simp add: handleSubmit_def)
    show "handleSubmit EditMode (Some p) fd = Some (UpdateProduct (product_id p) (cleanData fd))"
      using v by (simp add: handleSubmit_def)
  }
qed


theorem validateForm_enforces_invariants_witness:
  "''price'' \<in> fst ` set (fst (validateForm (sampleForm ''Lamp'' (Fin 0)))) \<and>
   handleSubmit CreateMode None (sampleForm ''Lamp'' (Fin 0)) = None \<and>
   validateForm (sampleForm ''Lamp'' (Fin 5)) = ([], True) \<and>
   handleSubmit CreateMode None (sampleForm ''Lamp'' (Fin 5))
     = Some (CreateProduct (sampleForm ''Lamp'' (Fin 5))) \<and>
   handleSubmit EditMode (Some (sampleProduct (Fin 5) (Fin 10))) (sampleForm ''Lamp'' (Fin 5))
     = Some (UpdateProduct 7 (cleanData (sampleForm ''Lamp'' (Fin 5))))"
  using validateForm_enforces_invariants
          [of "sampleForm ''Lamp'' (Fin 0)" CreateMode None "sampleProduct (Fin 5) (Fin 10)"]
        validateForm_enforces_invariants
          [of "sampleForm ''Lamp'' (Fin 5)" CreateMode None "sampleProduct (Fin 5) (Fin 10)"]
  by (simp add: sampleForm_def sampleProduct_def spec_violatedFields_def js_gt_def trim_def
      isWhiteSpace_def)

text \<open>
  A title of one space is a non-empty title, and the input has no violated invariant, but
  validation rejects it and nothing is sent. A price that is NaN is not above 0, but
  validation accepts it and the input is sent.
\<close>

theorem validateForm_counterexample:
  "spec_violatedFields (sampleForm '' '' (Fin 5)) = [] \<and>
   title (sampleForm '' '' (Fin 5)) \<noteq> '''' \<and>
   description (sampleForm '' '' (Fin 5)) \<noteq> '''' \<and>
   category (sampleForm '' '' (Fin 5)) \<noteq> '''' \<and>
   \<not> snd (validateForm (sampleForm '' '' (Fin 5))) \<and>
   handleSubmit CreateMode None (sampleForm '' '' (Fin 5)) = None \<and>
   ''price'' \<in> set (spec_violatedFields (sampleForm ''Lamp'' NaN)) \<and>
   validateForm (sampleForm ''Lamp'' NaN) = ([], True) \<and>
   handleSubmit CreateMode None (sampleForm ''Lamp'' NaN)
     = Some (CreateProduct (sampleForm ''Lamp'' NaN))"
  by (simp add: sampleForm_def spec_violatedFields_def js_gt_def trim_def isWhiteSpace_def
      validateForm_def handleSubmit_def)







end
